theory Spec2Isabelle
  imports Main
begin

section \<open>The dismiss command of werf: cmd/werf/dismiss/dismiss.go\<close>

text \<open>
  The command resolves a (namespace, release) pair and hands the removal of the release to
  the Helm uninstall command. Everything it calls outside dismiss.go (initialisers, the file
  system, the JSON decoder, the project configuration, the lock manager, the release storage,
  the uninstall command) is an outside collaborator: its outcome is a field of the record
  \<open>world\<close>, and each call that matters for the order of effects is written to a trace of
  events. A Go \<open>error\<close> result is an \<open>error option\<close> (\<open>None\<close> is \<open>nil\<close>); a Go result
  \<open>(value, error)\<close> is a sum with \<open>Inl\<close> for the error.
\<close>

subsection \<open>Errors\<close>

text \<open>
  \<open>Errorf fmt args\<close> is \<open>fmt.Errorf(fmt, args...)\<close> without a wrapped error,
  \<open>Wrapf fmt args err\<close> is \<open>fmt.Errorf(fmt, args..., err)\<close> with the verb \<open>%w\<close> wrapping \<open>err\<close>.
  \<open>ErrReleaseNotFound\<close> is the sentinel \<open>driver.ErrReleaseNotFound\<close>,
  \<open>GitWorktreeNotFoundError\<close> the error type \<open>*common.GitWorktreeNotFoundError\<close>, and
  \<open>Error s\<close> any other error value of a collaborator.
\<close>

datatype error =
    Error string
  | ErrReleaseNotFound
  | GitWorktreeNotFoundError
  | Errorf string "string list"
  | Wrapf string "string list" error

text \<open>\<open>errors.Is(err, target)\<close>: some error of the chain of \<open>err\<close> equals \<open>target\<close>;
  a nil error has no chain.\<close>

fun errors_Is_chain :: "error \<Rightarrow> error \<Rightarrow> bool" where
  "errors_Is_chain (Wrapf f as e) target = (Wrapf f as e = target \<or> errors_Is_chain e target)"
| "errors_Is_chain e target = (e = target)"

fun errors_Is :: "error option \<Rightarrow> error \<Rightarrow> bool" where
  "errors_Is None target = False"
| "errors_Is (Some e) target = errors_Is_chain e target"

text \<open>\<open>errors.As(err, &gitNotFoundErr)\<close> for a non-nil \<open>err\<close>: some error of the chain is a
  \<open>*common.GitWorktreeNotFoundError\<close>.\<close>

fun errors_As_GitWorktreeNotFoundError :: "error \<Rightarrow> bool" where
  "errors_As_GitWorktreeNotFoundError GitWorktreeNotFoundError = True"
| "errors_As_GitWorktreeNotFoundError (Wrapf f as e) = errors_As_GitWorktreeNotFoundError e"
| "errors_As_GitWorktreeNotFoundError e = False"

subsection \<open>Command data\<close>

text \<open>The flags read by the command: \<open>cmdData\<close> (WithNamespace, WithHooks) and the fields of
  \<open>commonCmdData\<close> that dismiss.go dereferences.\<close>

record CmdData =
  WithNamespace :: bool
  WithHooks :: bool
  Namespace :: string
  Release :: string
  Environment :: string
  UseDeployReport :: bool

text \<open>\<open>helmrelease.DeployReport\<close>, the two fields the command reads.\<close>

record DeployReport =
  DeployReport_Namespace :: string
  DeployReport_Release :: string

text \<open>\<open>helm_v3.UninstallCmdOptions\<close> as built at lines 228-233 (the stages splitter is a
  fresh object without inputs and is left out).\<close>

record UninstallCmdOptions =
  DeleteNamespace :: bool
  DeleteHooks :: bool
  DontFailIfNoRelease :: bool

text \<open>\<open>*lock_manager.LockManager\<close>: a manager is known by the namespace it was made for; the
  nil pointer is \<open>None\<close>.\<close>

datatype LockManager = LockManager string

subsection \<open>Collaborators and events\<close>

text \<open>
  One field for each call that leaves dismiss.go, named after the call. A call made at most
  once with arguments fixed by the flags is its result; the others are functions of the
  arguments that runDismiss computes. \<open>'cfg\<close> is the type of the loaded project
  configuration, \<open>LockManager_LockRelease\<close> the lock provider's answer to an acquisition.
\<close>

record 'cfg world =
  werf_Init :: "error option"
  InitProcessContainerBackend :: "error option"
  GetHostGitDataManager :: "error option"
  git_repo_Init :: "error option"
  true_git_Init :: "error option"
  image_Init :: "error option"
  lrumeta_Init :: "error option"
  GetGiterminismManager :: "error option"
  OndemandKubeInitializer_Init :: "error option"
  GetDeployReportPath :: "error + string"
  os_ReadFile :: "string \<Rightarrow> error + string"
  json_Unmarshal :: "string \<Rightarrow> error + DeployReport"
  GetRequiredWerfConfig :: "error + 'cfg"
  GetKubernetesNamespace :: "string \<Rightarrow> string \<Rightarrow> 'cfg \<Rightarrow> error + string"
  GetHelmRelease :: "string \<Rightarrow> string \<Rightarrow> string \<Rightarrow> 'cfg \<Rightarrow> error + string"
  NewHelmRegistryClient :: "error option"
  NewLockManager :: "string \<Rightarrow> error option"
  InitActionConfig :: "string \<Rightarrow> error option"
  Releases_History :: "string \<Rightarrow> error option"
  LockManager_LockRelease :: "LockManager option \<Rightarrow> string \<Rightarrow> error option"
  helmUninstallCmd_RunE :: "UninstallCmdOptions \<Rightarrow> string list \<Rightarrow> error option"

text \<open>
  The observable calls, in the order the command makes them. \<open>EvLock\<close> is a granted lock,
  \<open>EvLockFailed\<close> a refused one, \<open>EvUnlock\<close> its release; \<open>EvNewLockManager\<close>,
  \<open>EvReadFile\<close>, \<open>EvHistory\<close> and \<open>EvUninstall\<close> are written when the call is made,
  whatever it returns.
\<close>

datatype event =
    EvLogKubeContext
  | EvProcessLogProjectDir
  | EvLogOptionalLn
  | EvLogFDetails string "string list"
  | EvReadFile string
  | EvNewLockManager string
  | EvHistory string
  | EvLock "LockManager option" string
  | EvLockFailed "LockManager option" string
  | EvUnlock "LockManager option" string
  | EvUninstall UninstallCmdOptions "string list"

fun is_lock_event :: "event \<Rightarrow> bool" where
  "is_lock_event (EvNewLockManager n) = True"
| "is_lock_event (EvLock m r) = True"
| "is_lock_event (EvLockFailed m r) = True"
| "is_lock_event (EvUnlock m r) = True"
| "is_lock_event e = False"

fun is_lock_acquired :: "event \<Rightarrow> bool" where
  "is_lock_acquired (EvLock m r) = True"
| "is_lock_acquired e = False"

fun is_uninstall :: "event \<Rightarrow> bool" where
  "is_uninstall (EvUninstall opts args) = True"
| "is_uninstall e = False"

fun is_history :: "event \<Rightarrow> bool" where
  "is_history (EvHistory release) = True"
| "is_history e = False"

subsection \<open>getNamespaceAndRelease (lines 253-321)\<close>

definition getNamespaceAndRelease ::
  "CmdData \<Rightarrow> 'cfg world \<Rightarrow> bool \<Rightarrow> event list \<times> (error + string \<times> string)" where
  \<open>getNamespaceAndRelease c w gitFound =
    (let namespaceSpecified = (Namespace c \<noteq> '''');
         releaseSpecified = (Release c \<noteq> '''')
     in
     if UseDeployReport c then
       (if namespaceSpecified \<or> releaseSpecified then
          ([], Inl (Errorf ''--namespace or --release can't be used together with --use-deploy-report'' []))
        else
          (case GetDeployReportPath w of
             Inl err \<Rightarrow> ([], Inl (Wrapf ''unable to get deploy report path: %w'' [] err))
           | Inr deployReportPath \<Rightarrow>
          (case os_ReadFile w deployReportPath of
             Inl err \<Rightarrow>
               ([EvReadFile deployReportPath],
                Inl (Wrapf ''unable to read deploy report file %q: %w'' [deployReportPath] err))
           | Inr deployReportByte \<Rightarrow>
          (case json_Unmarshal w deployReportByte of
             Inl err \<Rightarrow>
               ([EvReadFile deployReportPath],
                Inl (Wrapf ''unable to unmarshal deploy report file %q: %w'' [deployReportPath] err))
           | Inr deployReport \<Rightarrow>
          (if DeployReport_Namespace deployReport = '''' then
             ([EvReadFile deployReportPath],
              Inl (Errorf ''unable to get namespace from deploy report file %q'' [deployReportPath]))
           else if DeployReport_Release deployReport = '''' then
             ([EvReadFile deployReportPath],
              Inl (Errorf ''unable to get release from deploy report file %q'' [deployReportPath]))
           else
             ([EvReadFile deployReportPath],
              Inr (DeployReport_Namespace deployReport, DeployReport_Release deployReport)))))))
     else if gitFound then
       (case GetRequiredWerfConfig w of
          Inl err \<Rightarrow>
            ([EvProcessLogProjectDir], Inl (Wrapf ''unable to load werf config: %w'' [] err))
        | Inr werfConfig \<Rightarrow>
       (case GetKubernetesNamespace w (Namespace c) (Environment c) werfConfig of
          Inl err \<Rightarrow> ([EvProcessLogProjectDir, EvLogOptionalLn], Inl err)
        | Inr namespace \<Rightarrow>
       (case GetHelmRelease w (Release c) (Environment c) namespace werfConfig of
          Inl err \<Rightarrow> ([EvProcessLogProjectDir, EvLogOptionalLn], Inl err)
        | Inr release \<Rightarrow> ([EvProcessLogProjectDir, EvLogOptionalLn], Inr (namespace, release)))))
     else if \<not> gitFound then
       (if \<not> namespaceSpecified \<and> \<not> releaseSpecified then
          ([], Inl (Errorf ''no git with werf project found: dismiss should either be executed in a git repository, or with --namespace and --release specified, or with --use-deploy-report'' []))
        else if namespaceSpecified \<and> \<not> releaseSpecified then
          ([], Inl (Errorf ''--namespace specified, but not --release, while should be specified both or none'' []))
        else if \<not> namespaceSpecified \<and> releaseSpecified then
          ([], Inl (Errorf ''--release specified, but not --namespace, while should be specified both or none'' []))
        else ([], Inr (Namespace c, Release c)))
     else ([], Inr ('''', '''')))\<close>

subsection \<open>LockReleaseWrapper\<close>

text \<open>
  Modelled from the spec: \<open>command_helpers.LockReleaseWrapper\<close> (package
  pkg/deploy/helm/command_helpers) is called at line 247 and its source is not available.
  The specification gives its behaviour: the lock is acquired (exclusive,
  blocking); a refused acquisition is fatal and aborts before any mutation; otherwise the
  wrapped routine runs, the lock is released whether the routine succeeded or failed, and the
  routine's result is what the caller gets. Whether the lock is granted is the answer of the
  lock provider, \<open>LockManager_LockRelease\<close>; waiting for the grant is not modelled.
\<close>

definition LockReleaseWrapper ::
  "'cfg world \<Rightarrow> string \<Rightarrow> LockManager option \<Rightarrow> event list \<times> error option
    \<Rightarrow> event list \<times> error option" where
  "LockReleaseWrapper w releaseName lockManager cmdFunc =
    (case LockManager_LockRelease w lockManager releaseName of
       Some err \<Rightarrow> ([EvLockFailed lockManager releaseName], Some err)
     | None \<Rightarrow>
         ([EvLock lockManager releaseName] @ fst cmdFunc @ [EvUnlock lockManager releaseName],
          snd cmdFunc))"

subsection \<open>runDismiss (lines 140-251)\<close>

text \<open>
  The closure handed to the wrapper at lines 247-249, and the direct call at line 240: one
  run of the uninstall command on the release.
\<close>

definition helmUninstallCmd_run ::
  "'cfg world \<Rightarrow> UninstallCmdOptions \<Rightarrow> string \<Rightarrow> event list \<times> error option" where
  "helmUninstallCmd_run w opts release =
     ([EvUninstall opts [release]], helmUninstallCmd_RunE w opts [release])"

text \<open>
  runDismiss, step by step as in the source: the initialisers of lines 141-172, each with its
  early return (two of them wrap the error); the log of the kube context (174); the
  giterminism manager, whose only tolerated error is the git-work-tree-not-found error
  (176-183); the kube initialiser (185-188); identity resolution (190-193); the registry
  client, only with a git work tree (195-201); the lock manager, only without
  \<open>--with-namespace\<close> (203-210); the Helm configuration (212-225); the uninstall command
  with its three flags (227-233); the two log lines (235-236); then either the direct
  uninstall (238-240), or the history query with its not-found exit (242-245) and the
  uninstall under the lock (247-249).
\<close>

definition runDismiss :: "CmdData \<Rightarrow> 'cfg world \<Rightarrow> event list \<times> error option" where
  \<open>runDismiss c w =
    (case werf_Init w of
       Some err \<Rightarrow> ([], Some (Wrapf ''initialization error: %w'' [] err))
     | None \<Rightarrow>
    (case InitProcessContainerBackend w of
       Some err \<Rightarrow> ([], Some err)
     | None \<Rightarrow>
    (case GetHostGitDataManager w of
       Some err \<Rightarrow> ([], Some (Wrapf ''error getting host git data manager: %w'' [] err))
     | None \<Rightarrow>
    (case git_repo_Init w of
       Some err \<Rightarrow> ([], Some err)
     | None \<Rightarrow>
    (case true_git_Init w of
       Some err \<Rightarrow> ([], Some err)
     | None \<Rightarrow>
    (case image_Init w of
       Some err \<Rightarrow> ([], Some err)
     | None \<Rightarrow>
    (case lrumeta_Init w of
       Some err \<Rightarrow> ([], Some err)
     | None \<Rightarrow>
    (case (case GetGiterminismManager w of
             None \<Rightarrow> Inr True
           | Some err \<Rightarrow>
               if \<not> errors_As_GitWorktreeNotFoundError err then Inl err else Inr False) of
       Inl err \<Rightarrow> ([EvLogKubeContext], Some err)
     | Inr gitFound \<Rightarrow>
    (case OndemandKubeInitializer_Init w of
       Some err \<Rightarrow> ([EvLogKubeContext], Some err)
     | None \<Rightarrow>
    (case getNamespaceAndRelease c w gitFound of
       (tr, Inl err) \<Rightarrow> (EvLogKubeContext # tr, Some err)
     | (tr, Inr (namespace, release)) \<Rightarrow>
    (case (if gitFound then NewHelmRegistryClient w else None) of
       Some err \<Rightarrow>
         (EvLogKubeContext # tr, Some (Wrapf ''unable to create helm registry client: %w'' [] err))
     | None \<Rightarrow>
    (case (if \<not> WithNamespace c then
             (case NewLockManager w namespace of
                Some err \<Rightarrow> Inl (Wrapf ''unable to create lock manager: %w'' [] err)
              | None \<Rightarrow> Inr (Some (LockManager namespace)))
           else Inr None) of
       Inl err \<Rightarrow> (EvLogKubeContext # tr @ [EvNewLockManager namespace], Some err)
     | Inr lockManager \<Rightarrow>
    (let tr_lm = EvLogKubeContext # tr
                   @ (if \<not> WithNamespace c then [EvNewLockManager namespace] else [])
     in
    (case InitActionConfig w namespace of
       Some err \<Rightarrow> (tr_lm, Some err)
     | None \<Rightarrow>
    (let dontFailIfNoRelease = True;
         opts = \<lparr>DeleteNamespace = WithNamespace c, DeleteHooks = WithHooks c,
                 DontFailIfNoRelease = dontFailIfNoRelease\<rparr>;
         tr_log = tr_lm @ [EvLogFDetails ''Using namespace: %s\<newline>'' [namespace],
                           EvLogFDetails ''Using release: %s\<newline>'' [release]]
     in
     if WithNamespace c then
       (tr_log @ fst (helmUninstallCmd_run w opts release),
        snd (helmUninstallCmd_run w opts release))
     else
       (if errors_Is (Releases_History w release) ErrReleaseNotFound then
          (tr_log @ [EvHistory release, EvLogFDetails ''No such release %q\<newline>'' [release]],
           None)
        else
          (tr_log @ [EvHistory release]
             @ fst (LockReleaseWrapper w release lockManager (helmUninstallCmd_run w opts release)),
           snd (LockReleaseWrapper w release lockManager (helmUninstallCmd_run w opts release))))
    )))))))))))))))\<close>

subsection \<open>The runs that reach identity resolution\<close>

text \<open>
  The condition on the collaborators under which runDismiss gets to line 190: none of the
  initialisers of lines 141-172 and 185-188 returns an error, the giterminism manager returns
  no error or the tolerated git-work-tree-not-found error (lines 176-182), and \<open>gitFound\<close> is
  the value that line 183 computes from that answer.
\<close>

definition reaches_resolution :: "'cfg world \<Rightarrow> bool \<Rightarrow> bool" where
  "reaches_resolution w gitFound =
    (werf_Init w = None \<and> InitProcessContainerBackend w = None \<and>
     GetHostGitDataManager w = None \<and> git_repo_Init w = None \<and> true_git_Init w = None \<and>
     image_Init w = None \<and> lrumeta_Init w = None \<and>
     (case GetGiterminismManager w of
        None \<Rightarrow> gitFound
      | Some err \<Rightarrow> errors_As_GitWorktreeNotFoundError err \<and> \<not> gitFound) \<and>
     OndemandKubeInitializer_Init w = None)"

subsection \<open>Example inputs\<close>

text \<open>
  A run outside a git work tree in which every collaborator succeeds, and the flags
  \<open>--namespace ns1 --release rel1\<close>. The JSON decoder of the example knows the two report
  documents used below: the second has no \<open>release\<close> key, so that field keeps Go's zero
  value, the empty string.
\<close>

definition deploy_report_ns1_rel1 :: string where
  \<open>deploy_report_ns1_rel1 = ''{"namespace":"ns1","release":"rel1"}''\<close>

definition deploy_report_empty_namespace :: string where
  \<open>deploy_report_empty_namespace = ''{"namespace":""}''\<close>

definition example_world :: "unit world" where
  "example_world =
    \<lparr>werf_Init = None, InitProcessContainerBackend = None, GetHostGitDataManager = None,
     git_repo_Init = None, true_git_Init = None, image_Init = None, lrumeta_Init = None,
     GetGiterminismManager = Some GitWorktreeNotFoundError,
     OndemandKubeInitializer_Init = None,
     GetDeployReportPath = Inr ''.werf-deploy-report.json'',
     os_ReadFile = (\<lambda>path. if path = ''.werf-deploy-report.json''
                              then Inr deploy_report_ns1_rel1
                              else Inl (Error ''no such file or directory'')),
     json_Unmarshal = (\<lambda>data.
        if data = deploy_report_ns1_rel1
        then Inr \<lparr>DeployReport_Namespace = ''ns1'', DeployReport_Release = ''rel1''\<rparr>
        else if data = deploy_report_empty_namespace
        then Inr \<lparr>DeployReport_Namespace = '''', DeployReport_Release = ''''\<rparr>
        else Inl (Error ''invalid character'')),
     GetRequiredWerfConfig = Inr (),
     GetKubernetesNamespace = (\<lambda>namespaceOption environmentOption werfConfig.
        Inr (if namespaceOption = '''' then ''project'' else namespaceOption)),
     GetHelmRelease = (\<lambda>releaseOption environmentOption namespace werfConfig.
        Inr (if releaseOption = '''' then ''project'' else releaseOption)),
     NewHelmRegistryClient = None,
     NewLockManager = (\<lambda>namespace. None),
     InitActionConfig = (\<lambda>namespace. None),
     Releases_History = (\<lambda>release. None),
     LockManager_LockRelease = (\<lambda>lockManager releaseName. None),
     helmUninstallCmd_RunE = (\<lambda>opts args. None)\<rparr>"

definition example_cmd :: CmdData where
  "example_cmd =
    \<lparr>WithNamespace = False, WithHooks = True, Namespace = ''ns1'', Release = ''rel1'',
     Environment = '''', UseDeployReport = False\<rparr>"

definition world_release_gone :: "unit world" where
  "world_release_gone = example_world\<lparr>Releases_History := (\<lambda>release. Some ErrReleaseNotFound)\<rparr>"

definition world_uninstall_fails :: "unit world" where
  "world_uninstall_fails =
     example_world\<lparr>helmUninstallCmd_RunE := (\<lambda>opts args. Some (Error ''uninstall failed''))\<rparr>"

definition world_empty_namespace_report :: "unit world" where
  "world_empty_namespace_report =
     example_world\<lparr>os_ReadFile := (\<lambda>path. Inr deploy_report_empty_namespace)\<rparr>"

definition cmd_use_deploy_report :: CmdData where
  "cmd_use_deploy_report =
     example_cmd\<lparr>Namespace := '''', Release := '''', UseDeployReport := True\<rparr>"

definition cmd_with_namespace_no_hooks :: CmdData where
  "cmd_with_namespace_no_hooks = example_cmd\<lparr>WithNamespace := True, WithHooks := False\<rparr>"

definition world_init_fails :: "unit world" where
  "world_init_fails = example_world\<lparr>werf_Init := Some (Error ''mkdir: permission denied'')\<rparr>"

definition world_release_gone_in_git :: "unit world" where
  "world_release_gone_in_git = world_release_gone\<lparr>GetGiterminismManager := None\<rparr>"

lemmas example_defs = cmd_with_namespace_no_hooks_def world_init_fails_def
  world_release_gone_in_git_def
  example_world_def example_cmd_def world_release_gone_def
  world_uninstall_fails_def world_empty_namespace_report_def cmd_use_deploy_report_def
  deploy_report_ns1_rel1_def deploy_report_empty_namespace_def

lemmas run_defs = runDismiss_def getNamespaceAndRelease_def LockReleaseWrapper_def
  helmUninstallCmd_run_def Let_def

section \<open>Properties\<close>

subsection \<open>What identity resolution can do\<close>

text \<open>getNamespaceAndRelease reads a file and writes log lines; it makes no other call that
  the trace records.\<close>

lemma getNamespaceAndRelease_events:
  assumes "getNamespaceAndRelease c w gitFound = (tr, r)" and "e \<in> set tr"
  shows "(\<exists>path. e = EvReadFile path) \<or> e = EvProcessLogProjectDir \<or> e = EvLogOptionalLn"
  using assms
  by (auto simp: getNamespaceAndRelease_def Let_def split: if_splits sum.splits)

lemma getNamespaceAndRelease_no_lock:
  assumes "getNamespaceAndRelease c w gitFound = (tr, r)"
  shows "filter is_lock_event tr = []" and "filter is_uninstall tr = []"
    and "EvHistory x \<notin> set tr" and "EvLogFDetails f as \<notin> set tr"
    and "EvLock m l \<notin> set tr" and "EvUninstall opts args \<notin> set tr"
    and "filter is_lock_acquired tr = []"
    and "filter (\<lambda>e. is_lock_event e \<or> is_uninstall e) tr = []"
  using getNamespaceAndRelease_events[OF assms]
  by (fastforce simp: filter_empty_conv)+

lemma getNamespaceAndRelease_filter:
  assumes "getNamespaceAndRelease c w gitFound = (tr, r)"
    and "\<And>path. \<not> P (EvReadFile path)" and "\<not> P EvProcessLogProjectDir"
    and "\<not> P EvLogOptionalLn"
  shows "filter P tr = []"
  using getNamespaceAndRelease_events[OF assms(1)] assms(2-4)
  by (fastforce simp: filter_empty_conv)

text \<open>With \<open>--with-namespace\<close>, whatever the collaborators answer: no lock-related call, and
  at most one run of the uninstall command, with the flags of lines 228-233.\<close>

lemma runDismiss_with_namespace_trace:
  assumes "WithNamespace c" and "runDismiss c w = (tr, res)"
  shows \<open>filter is_lock_event tr = [] \<and>
    (filter is_uninstall tr = [] \<or>
     (\<exists>release. filter is_uninstall tr =
         [EvUninstall \<lparr>DeleteNamespace = True, DeleteHooks = WithHooks c,
                       DontFailIfNoRelease = True\<rparr> [release]]))\<close>
  using assms
  by (auto simp: runDismiss_def Let_def helmUninstallCmd_run_def
        getNamespaceAndRelease_no_lock
      split: option.splits sum.splits if_splits prod.splits)

subsection \<open>Identity resolution\<close>

text \<open>
  C2. When \<open>--use-deploy-report\<close> is set together with \<open>--namespace\<close> or \<open>--release\<close>,
  getNamespaceAndRelease fails with the conflicting-sources error of line 261, and its trace
  is empty: the failure comes before the path of the report is asked for and before the file
  is read.
\<close>

theorem use_deploy_report_conflict:
  assumes "UseDeployReport c" and "Namespace c \<noteq> '''' \<or> Release c \<noteq> ''''"
  shows \<open>getNamespaceAndRelease c w gitFound =
    ([], Inl (Errorf ''--namespace or --release can't be used together with --use-deploy-report'' []))\<close>
  using assms by (auto simp: getNamespaceAndRelease_def)

theorem use_deploy_report_conflict_witness:
  \<open>UseDeployReport (example_cmd\<lparr>UseDeployReport := True\<rparr>) \<and>
   Namespace (example_cmd\<lparr>UseDeployReport := True\<rparr>) = ''ns1'' \<and>
   getNamespaceAndRelease (example_cmd\<lparr>UseDeployReport := True\<rparr>) example_world False =
    ([], Inl (Errorf ''--namespace or --release can't be used together with --use-deploy-report'' []))\<close>
  using use_deploy_report_conflict [of "example_cmd\<lparr>UseDeployReport := True\<rparr>" example_world False]
  by (simp add: example_cmd_def)

text \<open>
  C3. Without \<open>--use-deploy-report\<close> and without a git work tree, getNamespaceAndRelease
  fails when neither \<open>--namespace\<close> nor \<open>--release\<close> is given, fails with the error that names
  the missing flag when exactly one is given, and returns the given pair when both are. No
  call is made on any of the four paths.
\<close>

theorem explicit_flags_without_git:
  assumes "\<not> UseDeployReport c"
  shows \<open>(Namespace c = '''' \<and> Release c = '''' \<longrightarrow>
      getNamespaceAndRelease c w False =
        ([], Inl (Errorf ''no git with werf project found: dismiss should either be executed in a git repository, or with --namespace and --release specified, or with --use-deploy-report'' []))) \<and>
    (Namespace c \<noteq> '''' \<and> Release c = '''' \<longrightarrow>
      getNamespaceAndRelease c w False =
        ([], Inl (Errorf ''--namespace specified, but not --release, while should be specified both or none'' []))) \<and>
    (Namespace c = '''' \<and> Release c \<noteq> '''' \<longrightarrow>
      getNamespaceAndRelease c w False =
        ([], Inl (Errorf ''--release specified, but not --namespace, while should be specified both or none'' []))) \<and>
    (Namespace c \<noteq> '''' \<and> Release c \<noteq> '''' \<longrightarrow>
      getNamespaceAndRelease c w False = ([], Inr (Namespace c, Release c)))\<close>
  using assms by (simp add: getNamespaceAndRelease_def)

theorem explicit_flags_without_git_witness:
  \<open>\<not> UseDeployReport example_cmd \<and>
   getNamespaceAndRelease (example_cmd\<lparr>Namespace := '''', Release := ''''\<rparr>) example_world False =
     ([], Inl (Errorf ''no git with werf project found: dismiss should either be executed in a git repository, or with --namespace and --release specified, or with --use-deploy-report'' [])) \<and>
   getNamespaceAndRelease (example_cmd\<lparr>Release := ''''\<rparr>) example_world False =
     ([], Inl (Errorf ''--namespace specified, but not --release, while should be specified both or none'' [])) \<and>
   getNamespaceAndRelease (example_cmd\<lparr>Namespace := ''''\<rparr>) example_world False =
     ([], Inl (Errorf ''--release specified, but not --namespace, while should be specified both or none'' [])) \<and>
   getNamespaceAndRelease example_cmd example_world False = ([], Inr (''ns1'', ''rel1''))\<close>
  using explicit_flags_without_git [of "example_cmd\<lparr>Namespace := '''', Release := ''''\<rparr>" example_world]
    explicit_flags_without_git [of "example_cmd\<lparr>Release := ''''\<rparr>" example_world]
    explicit_flags_without_git [of "example_cmd\<lparr>Namespace := ''''\<rparr>" example_world]
    explicit_flags_without_git [of example_cmd example_world]
  by (simp add: example_cmd_def)

subsection \<open>The release that is already gone\<close>

text \<open>
  C1. Take any run without \<open>--with-namespace\<close> that gets to the history query of line 242:
  it reaches identity resolution, the resolution returns a pair, and the registry client (in
  a git work tree), the lock manager and the Helm configuration are made without error. When
  the query for the resolved release answers with an error whose chain holds
  \<open>driver.ErrReleaseNotFound\<close>, the whole run is: the effects of the resolution, the lock
  manager, the two "Using" log lines, the query, and the log line "No such release" as the
  last effect; runDismiss returns nil, and the uninstall command is not run.
\<close>

theorem history_not_found_is_success:
  assumes "\<not> WithNamespace c"
    and "reaches_resolution w gitFound"
    and "getNamespaceAndRelease c w gitFound = (tr, Inr (namespace, release))"
    and "(if gitFound then NewHelmRegistryClient w else None) = None"
    and "NewLockManager w namespace = None"
    and "InitActionConfig w namespace = None"
    and "errors_Is (Releases_History w release) ErrReleaseNotFound"
  shows \<open>runDismiss c w =
      (EvLogKubeContext # tr @
         [EvNewLockManager namespace,
          EvLogFDetails ''Using namespace: %s\<newline>'' [namespace],
          EvLogFDetails ''Using release: %s\<newline>'' [release],
          EvHistory release,
          EvLogFDetails ''No such release %q\<newline>'' [release]],
       None) \<and>
    filter is_uninstall (fst (runDismiss c w)) = []\<close>
  using assms
  by (auto simp: runDismiss_def reaches_resolution_def Let_def
        getNamespaceAndRelease_no_lock split: option.splits)

theorem history_not_found_is_success_witness:
  \<open>\<not> WithNamespace example_cmd \<and>
   reaches_resolution world_release_gone False \<and>
   getNamespaceAndRelease example_cmd world_release_gone False = ([], Inr (''ns1'', ''rel1'')) \<and>
   NewLockManager world_release_gone ''ns1'' = None \<and>
   InitActionConfig world_release_gone ''ns1'' = None \<and>
   errors_Is (Releases_History world_release_gone ''rel1'') ErrReleaseNotFound \<and>
   runDismiss example_cmd world_release_gone =
     ([EvLogKubeContext, EvNewLockManager ''ns1'',
       EvLogFDetails ''Using namespace: %s\<newline>'' [''ns1''],
       EvLogFDetails ''Using release: %s\<newline>'' [''rel1''], EvHistory ''rel1'',
       EvLogFDetails ''No such release %q\<newline>'' [''rel1'']], None)\<close>
proof -
  have flag: "\<not> WithNamespace example_cmd"
    by (simp add: example_defs)
  have init: "reaches_resolution world_release_gone False"
    by (simp add: reaches_resolution_def example_defs)
  have ident: "getNamespaceAndRelease example_cmd world_release_gone False =
                 ([], Inr (''ns1'', ''rel1''))"
    by (simp add: getNamespaceAndRelease_def example_defs)
  have registry: "(if False then NewHelmRegistryClient world_release_gone else None) = None"
    by simp
  have manager: "NewLockManager world_release_gone ''ns1'' = None"
    by (simp add: example_defs)
  have config: "InitActionConfig world_release_gone ''ns1'' = None"
    by (simp add: example_defs)
  have gone: "errors_Is (Releases_History world_release_gone ''rel1'') ErrReleaseNotFound"
    by (simp add: example_defs)
  from history_not_found_is_success [OF flag init ident registry manager config gone]
    flag init ident manager config gone
  show ?thesis by simp
qed

subsection \<open>Removal together with the namespace\<close>

text \<open>
  C4, as the code has it. With \<open>--with-namespace\<close> no lock manager is made and no lock is
  taken or released, whatever the collaborators answer, and the uninstall command runs at
  most once. In every run that reaches identity resolution, in which the resolution returns a
  pair and the registry client (in a git work tree) and the Helm configuration are made
  without error, the whole run is: the effects of the resolution, the two "Using" log lines
  and one run of the uninstall command on the resolved release, whose result is the result of
  runDismiss. The command is run with DeleteNamespace true and DontFailIfNoRelease true, and
  with DeleteHooks equal to the flag \<open>--with-hooks\<close>, which is true unless the user turns it
  off (line 135).
\<close>

theorem with_namespace_uninstall:
  assumes "WithNamespace c"
  shows \<open>filter is_lock_event (fst (runDismiss c w)) = [] \<and>
    (filter is_uninstall (fst (runDismiss c w)) = [] \<or>
     (\<exists>release. filter is_uninstall (fst (runDismiss c w)) =
         [EvUninstall \<lparr>DeleteNamespace = True, DeleteHooks = WithHooks c,
                       DontFailIfNoRelease = True\<rparr> [release]])) \<and>
    (reaches_resolution w gitFound \<and>
     getNamespaceAndRelease c w gitFound = (tr, Inr (namespace, release)) \<and>
     (if gitFound then NewHelmRegistryClient w else None) = None \<and>
     InitActionConfig w namespace = None \<longrightarrow>
     runDismiss c w =
       (EvLogKubeContext # tr @
          [EvLogFDetails ''Using namespace: %s\<newline>'' [namespace],
           EvLogFDetails ''Using release: %s\<newline>'' [release],
           EvUninstall \<lparr>DeleteNamespace = True, DeleteHooks = WithHooks c,
                         DontFailIfNoRelease = True\<rparr> [release]],
        helmUninstallCmd_RunE w \<lparr>DeleteNamespace = True, DeleteHooks = WithHooks c,
                         DontFailIfNoRelease = True\<rparr> [release]) \<and>
     filter is_uninstall (fst (runDismiss c w)) =
       [EvUninstall \<lparr>DeleteNamespace = True, DeleteHooks = WithHooks c,
                     DontFailIfNoRelease = True\<rparr> [release]])\<close>
proof -
  have always: \<open>filter is_lock_event (fst (runDismiss c w)) = [] \<and>
    (filter is_uninstall (fst (runDismiss c w)) = [] \<or>
     (\<exists>release. filter is_uninstall (fst (runDismiss c w)) =
         [EvUninstall \<lparr>DeleteNamespace = True, DeleteHooks = WithHooks c,
                       DontFailIfNoRelease = True\<rparr> [release]]))\<close>
    using runDismiss_with_namespace_trace [OF assms, of w "fst (runDismiss c w)" "snd (runDismiss c w)"]
    by simp
  have reached: \<open>runDismiss c w =
       (EvLogKubeContext # tr @
          [EvLogFDetails ''Using namespace: %s\<newline>'' [namespace],
           EvLogFDetails ''Using release: %s\<newline>'' [release],
           EvUninstall \<lparr>DeleteNamespace = True, DeleteHooks = WithHooks c,
                         DontFailIfNoRelease = True\<rparr> [release]],
        helmUninstallCmd_RunE w \<lparr>DeleteNamespace = True, DeleteHooks = WithHooks c,
                         DontFailIfNoRelease = True\<rparr> [release])\<close>
    if "reaches_resolution w gitFound"
      and "getNamespaceAndRelease c w gitFound = (tr, Inr (namespace, release))"
      and "(if gitFound then NewHelmRegistryClient w else None) = None"
      and "InitActionConfig w namespace = None"
    using that assms
    by (auto simp: runDismiss_def reaches_resolution_def Let_def helmUninstallCmd_run_def
        split: option.splits)
  show ?thesis
    using always reached by (auto simp: getNamespaceAndRelease_no_lock)
qed

text \<open>
  C4, as stated, fails in two ways: with \<open>--with-namespace --with-hooks=false\<close> the uninstall
  command is run with DeleteHooks false, and when the initialisation fails the uninstall
  command is not run at all.
\<close>

theorem with_namespace_hooks_counterexample:
  \<open>WithNamespace cmd_with_namespace_no_hooks \<and>
   runDismiss cmd_with_namespace_no_hooks example_world =
     ([EvLogKubeContext,
       EvLogFDetails ''Using namespace: %s\<newline>'' [''ns1''],
       EvLogFDetails ''Using release: %s\<newline>'' [''rel1''],
       EvUninstall \<lparr>DeleteNamespace = True, DeleteHooks = False,
                     DontFailIfNoRelease = True\<rparr> [''rel1'']], None) \<and>
   runDismiss cmd_with_namespace_no_hooks world_init_fails =
     ([], Some (Wrapf ''initialization error: %w'' [] (Error ''mkdir: permission denied'')))\<close>
  by (simp add: run_defs example_defs)

theorem with_namespace_uninstall_witness:
  \<open>WithNamespace (example_cmd\<lparr>WithNamespace := True\<rparr>) \<and>
   reaches_resolution example_world False \<and>
   getNamespaceAndRelease (example_cmd\<lparr>WithNamespace := True\<rparr>) example_world False =
     ([], Inr (''ns1'', ''rel1'')) \<and>
   InitActionConfig example_world ''ns1'' = None \<and>
   runDismiss (example_cmd\<lparr>WithNamespace := True\<rparr>) example_world =
     ([EvLogKubeContext,
       EvLogFDetails ''Using namespace: %s\<newline>'' [''ns1''],
       EvLogFDetails ''Using release: %s\<newline>'' [''rel1''],
       EvUninstall \<lparr>DeleteNamespace = True, DeleteHooks = True,
                     DontFailIfNoRelease = True\<rparr> [''rel1'']],
      helmUninstallCmd_RunE example_world
        \<lparr>DeleteNamespace = True, DeleteHooks = True, DontFailIfNoRelease = True\<rparr>
        [''rel1'']) \<and>
   filter is_lock_event (fst (runDismiss (example_cmd\<lparr>WithNamespace := True\<rparr>) example_world))
     = []\<close>
proof -
  have flag: "WithNamespace (example_cmd\<lparr>WithNamespace := True\<rparr>)"
    by simp
  have init: "reaches_resolution example_world False"
    by (simp add: reaches_resolution_def example_defs)
  have ident: "getNamespaceAndRelease (example_cmd\<lparr>WithNamespace := True\<rparr>) example_world False =
                 ([], Inr (''ns1'', ''rel1''))"
    by (simp add: getNamespaceAndRelease_def example_defs)
  have config: "InitActionConfig example_world ''ns1'' = None"
    by (simp add: example_defs)
  from with_namespace_uninstall [OF flag, of example_world False "[]" "''ns1''" "''rel1''"]
    flag init ident config
  show ?thesis by (simp add: example_cmd_def)
qed

subsection \<open>The locked uninstall\<close>

text \<open>
  C5. Take any run without \<open>--with-namespace\<close> that gets to line 247: it reaches identity
  resolution, the resolution returns a pair, the registry client (in a git work tree), the
  lock manager and the Helm configuration are made without error, the history query does not
  report the release as not found, and the lock provider grants the lock. Then the whole run
  is: the effects of the resolution, the lock manager, the two "Using" log lines, the query,
  the lock, one run of the uninstall command on the resolved release, and the release of the
  lock as the last effect. runDismiss returns exactly what the uninstall command returned,
  error or nil: the lock is released in both cases and the error is handed on unchanged.
\<close>

theorem locked_uninstall_releases_lock:
  assumes "\<not> WithNamespace c"
    and "reaches_resolution w gitFound"
    and "getNamespaceAndRelease c w gitFound = (tr, Inr (namespace, release))"
    and "(if gitFound then NewHelmRegistryClient w else None) = None"
    and "NewLockManager w namespace = None"
    and "InitActionConfig w namespace = None"
    and "\<not> errors_Is (Releases_History w release) ErrReleaseNotFound"
    and "LockManager_LockRelease w (Some (LockManager namespace)) release = None"
  shows \<open>runDismiss c w =
      (EvLogKubeContext # tr @
         [EvNewLockManager namespace,
          EvLogFDetails ''Using namespace: %s\<newline>'' [namespace],
          EvLogFDetails ''Using release: %s\<newline>'' [release],
          EvHistory release,
          EvLock (Some (LockManager namespace)) release,
          EvUninstall \<lparr>DeleteNamespace = False, DeleteHooks = WithHooks c,
                        DontFailIfNoRelease = True\<rparr> [release],
          EvUnlock (Some (LockManager namespace)) release],
       helmUninstallCmd_RunE w \<lparr>DeleteNamespace = False, DeleteHooks = WithHooks c,
                        DontFailIfNoRelease = True\<rparr> [release])\<close>
  using assms
  by (auto simp: runDismiss_def reaches_resolution_def Let_def helmUninstallCmd_run_def
        LockReleaseWrapper_def split: option.splits)

theorem locked_uninstall_releases_lock_witness:
  \<open>\<not> WithNamespace example_cmd \<and>
   reaches_resolution world_uninstall_fails False \<and>
   getNamespaceAndRelease example_cmd world_uninstall_fails False =
     ([], Inr (''ns1'', ''rel1'')) \<and>
   NewLockManager world_uninstall_fails ''ns1'' = None \<and>
   InitActionConfig world_uninstall_fails ''ns1'' = None \<and>
   \<not> errors_Is (Releases_History world_uninstall_fails ''rel1'') ErrReleaseNotFound \<and>
   LockManager_LockRelease world_uninstall_fails (Some (LockManager ''ns1'')) ''rel1'' = None \<and>
   helmUninstallCmd_RunE world_uninstall_fails
      \<lparr>DeleteNamespace = False, DeleteHooks = True, DontFailIfNoRelease = True\<rparr> [''rel1'']
     = Some (Error ''uninstall failed'') \<and>
   runDismiss example_cmd world_uninstall_fails =
     ([EvLogKubeContext, EvNewLockManager ''ns1'',
       EvLogFDetails ''Using namespace: %s\<newline>'' [''ns1''],
       EvLogFDetails ''Using release: %s\<newline>'' [''rel1''], EvHistory ''rel1'',
       EvLock (Some (LockManager ''ns1'')) ''rel1'',
       EvUninstall \<lparr>DeleteNamespace = False, DeleteHooks = True,
                     DontFailIfNoRelease = True\<rparr> [''rel1''],
       EvUnlock (Some (LockManager ''ns1'')) ''rel1''],
      Some (Error ''uninstall failed''))\<close>
proof -
  have flag: "\<not> WithNamespace example_cmd"
    by (simp add: example_defs)
  have init: "reaches_resolution world_uninstall_fails False"
    by (simp add: reaches_resolution_def example_defs)
  have ident: "getNamespaceAndRelease example_cmd world_uninstall_fails False =
                 ([], Inr (''ns1'', ''rel1''))"
    by (simp add: getNamespaceAndRelease_def example_defs)
  have registry: "(if False then NewHelmRegistryClient world_uninstall_fails else None) = None"
    by simp
  have manager: "NewLockManager world_uninstall_fails ''ns1'' = None"
    by (simp add: example_defs)
  have config: "InitActionConfig world_uninstall_fails ''ns1'' = None"
    by (simp add: example_defs)
  have there: "\<not> errors_Is (Releases_History world_uninstall_fails ''rel1'') ErrReleaseNotFound"
    by (simp add: example_defs)
  have granted:
    "LockManager_LockRelease world_uninstall_fails (Some (LockManager ''ns1'')) ''rel1'' = None"
    by (simp add: example_defs)
  have fails: \<open>helmUninstallCmd_RunE world_uninstall_fails
      \<lparr>DeleteNamespace = False, DeleteHooks = True, DontFailIfNoRelease = True\<rparr> [''rel1'']
     = Some (Error ''uninstall failed'')\<close>
    by (simp add: example_defs)
  from locked_uninstall_releases_lock [OF flag init ident registry manager config there granted]
    flag init ident manager config there granted fails
  show ?thesis by (simp add: example_cmd_def)
qed

subsection \<open>No lock for the history check\<close>

text \<open>
  C7, as the code has it. Take any run without \<open>--with-namespace\<close> that gets to the history
  query (as for C1) and whose query reports that the release is not there. runDismiss returns
  nil. Of the lock-related calls, the history queries and the runs of the uninstall command,
  the run makes exactly two, in this order: the lock manager for the resolved namespace
  (line 205), then the query for the resolved release (line 242). No lock is taken, for the
  query or after it, and the uninstall command is not run.
\<close>

theorem history_not_found_lock_manager_only:
  assumes "\<not> WithNamespace c"
    and "reaches_resolution w gitFound"
    and "getNamespaceAndRelease c w gitFound = (tr, Inr (namespace, release))"
    and "(if gitFound then NewHelmRegistryClient w else None) = None"
    and "NewLockManager w namespace = None"
    and "InitActionConfig w namespace = None"
    and "errors_Is (Releases_History w release) ErrReleaseNotFound"
  shows \<open>snd (runDismiss c w) = None \<and>
    filter (\<lambda>e. is_lock_event e \<or> is_uninstall e \<or> is_history e) (fst (runDismiss c w)) =
      [EvNewLockManager namespace, EvHistory release]\<close>
proof -
  have quiet: "filter (\<lambda>e. is_lock_event e \<or> is_uninstall e \<or> is_history e) tr = []"
    using assms(3) by (rule getNamespaceAndRelease_filter) simp_all
  show ?thesis
    using assms quiet
    by (auto simp: runDismiss_def reaches_resolution_def Let_def split: option.splits)
qed

text \<open>
  C7, as stated, fails: in a run whose identity comes from the deploy report and whose release
  is gone, the trace holds the making of the lock manager and the history query, and no lock.
\<close>

theorem history_not_found_lock_counterexample:
  \<open>runDismiss cmd_use_deploy_report world_release_gone =
     ([EvLogKubeContext, EvReadFile ''.werf-deploy-report.json'', EvNewLockManager ''ns1'',
       EvLogFDetails ''Using namespace: %s\<newline>'' [''ns1''],
       EvLogFDetails ''Using release: %s\<newline>'' [''rel1''], EvHistory ''rel1'',
       EvLogFDetails ''No such release %q\<newline>'' [''rel1'']], None) \<and>
   errors_Is (Releases_History world_release_gone ''rel1'') ErrReleaseNotFound \<and>
   filter is_lock_acquired (fst (runDismiss cmd_use_deploy_report world_release_gone)) = []\<close>
  by (simp add: run_defs example_defs)

theorem history_not_found_lock_manager_only_witness:
  \<open>\<not> WithNamespace example_cmd \<and>
   reaches_resolution world_release_gone_in_git True \<and>
   getNamespaceAndRelease example_cmd world_release_gone_in_git True =
     ([EvProcessLogProjectDir, EvLogOptionalLn], Inr (''ns1'', ''rel1'')) \<and>
   NewHelmRegistryClient world_release_gone_in_git = None \<and>
   NewLockManager world_release_gone_in_git ''ns1'' = None \<and>
   InitActionConfig world_release_gone_in_git ''ns1'' = None \<and>
   errors_Is (Releases_History world_release_gone_in_git ''rel1'') ErrReleaseNotFound \<and>
   snd (runDismiss example_cmd world_release_gone_in_git) = None \<and>
   filter (\<lambda>e. is_lock_event e \<or> is_uninstall e \<or> is_history e)
       (fst (runDismiss example_cmd world_release_gone_in_git)) =
     [EvNewLockManager ''ns1'', EvHistory ''rel1'']\<close>
proof -
  have flag: "\<not> WithNamespace example_cmd"
    by (simp add: example_defs)
  have init: "reaches_resolution world_release_gone_in_git True"
    by (simp add: reaches_resolution_def world_release_gone_in_git_def example_defs)
  have ident: "getNamespaceAndRelease example_cmd world_release_gone_in_git True =
                 ([EvProcessLogProjectDir, EvLogOptionalLn], Inr (''ns1'', ''rel1''))"
    by (simp add: getNamespaceAndRelease_def world_release_gone_in_git_def example_defs)
  have client: "NewHelmRegistryClient world_release_gone_in_git = None"
    by (simp add: world_release_gone_in_git_def example_defs)
  have registry:
    "(if True then NewHelmRegistryClient world_release_gone_in_git else None) = None"
    using client by simp
  have manager: "NewLockManager world_release_gone_in_git ''ns1'' = None"
    by (simp add: world_release_gone_in_git_def example_defs)
  have config: "InitActionConfig world_release_gone_in_git ''ns1'' = None"
    by (simp add: world_release_gone_in_git_def example_defs)
  have gone: "errors_Is (Releases_History world_release_gone_in_git ''rel1'') ErrReleaseNotFound"
    by (simp add: world_release_gone_in_git_def example_defs)
  from history_not_found_lock_manager_only [OF flag init ident registry manager config gone]
    flag init ident client manager config gone
  show ?thesis by simp
qed

subsection \<open>The deploy report\<close>

text \<open>
  C9. With \<open>--use-deploy-report\<close> and no explicit flag, a report file that holds the
  document \<open>{"namespace":"ns1","release":"rel1"}\<close>, decoded by the JSON decoder into these
  two fields, resolves to the pair (ns1, rel1); the file is read once.
\<close>

theorem deploy_report_roundtrip:
  assumes "UseDeployReport c" and "Namespace c = ''''" and "Release c = ''''"
    and "GetDeployReportPath w = Inr path"
    and "os_ReadFile w path = Inr deploy_report_ns1_rel1"
    and "json_Unmarshal w deploy_report_ns1_rel1 =
           Inr \<lparr>DeployReport_Namespace = ''ns1'', DeployReport_Release = ''rel1''\<rparr>"
  shows "getNamespaceAndRelease c w gitFound = ([EvReadFile path], Inr (''ns1'', ''rel1''))"
  using assms by (simp add: getNamespaceAndRelease_def)

theorem deploy_report_roundtrip_witness:
  \<open>UseDeployReport cmd_use_deploy_report \<and> Namespace cmd_use_deploy_report = '''' \<and>
   Release cmd_use_deploy_report = '''' \<and>
   GetDeployReportPath example_world = Inr ''.werf-deploy-report.json'' \<and>
   os_ReadFile example_world ''.werf-deploy-report.json'' = Inr deploy_report_ns1_rel1 \<and>
   json_Unmarshal example_world deploy_report_ns1_rel1 =
     Inr \<lparr>DeployReport_Namespace = ''ns1'', DeployReport_Release = ''rel1''\<rparr> \<and>
   getNamespaceAndRelease cmd_use_deploy_report example_world False =
     ([EvReadFile ''.werf-deploy-report.json''], Inr (''ns1'', ''rel1''))\<close>
  using deploy_report_roundtrip [of cmd_use_deploy_report example_world
      "''.werf-deploy-report.json''" False]
  by (simp add: example_world_def example_cmd_def cmd_use_deploy_report_def)

text \<open>
  C8, as stated, fails: for the document \<open>{"namespace":""}\<close> both fields are empty after
  decoding, the namespace is checked first (line 279), and the error names the namespace, not
  the release.
\<close>

theorem deploy_report_empty_namespace_counterexample:
  \<open>json_Unmarshal world_empty_namespace_report deploy_report_empty_namespace =
     Inr \<lparr>DeployReport_Namespace = '''', DeployReport_Release = ''''\<rparr> \<and>
   getNamespaceAndRelease cmd_use_deploy_report world_empty_namespace_report False =
     ([EvReadFile ''.werf-deploy-report.json''],
      Inl (Errorf ''unable to get namespace from deploy report file %q''
             [''.werf-deploy-report.json''])) \<and>
   getNamespaceAndRelease cmd_use_deploy_report world_empty_namespace_report False \<noteq>
     ([EvReadFile ''.werf-deploy-report.json''],
      Inl (Errorf ''unable to get release from deploy report file %q''
             [''.werf-deploy-report.json'']))\<close>
  by (simp add: getNamespaceAndRelease_def example_defs)

text \<open>
  C8, as the code has it. A report that decodes with an empty namespace is rejected with the
  error of line 280, which names the namespace. The only effect of the resolution is the read
  of the file; runDismiss then fails, and its trace holds nothing but the log of the kube
  context and that read: no lock manager, no lock, no uninstall.
\<close>

theorem deploy_report_empty_namespace_rejected:
  assumes "UseDeployReport c" and "Namespace c = ''''" and "Release c = ''''"
    and "GetDeployReportPath w = Inr path"
    and "os_ReadFile w path = Inr data"
    and "json_Unmarshal w data = Inr deployReport"
    and "DeployReport_Namespace deployReport = ''''"
  shows \<open>getNamespaceAndRelease c w gitFound =
      ([EvReadFile path],
       Inl (Errorf ''unable to get namespace from deploy report file %q'' [path])) \<and>
    snd (runDismiss c w) \<noteq> None \<and>
    set (fst (runDismiss c w)) \<subseteq> {EvLogKubeContext, EvReadFile path}\<close>
proof -
  have gnr: \<open>getNamespaceAndRelease c w g =
      ([EvReadFile path],
       Inl (Errorf ''unable to get namespace from deploy report file %q'' [path]))\<close> for g
    using assms by (simp add: getNamespaceAndRelease_def)
  have run: "snd (runDismiss c w) \<noteq> None \<and>
             set (fst (runDismiss c w)) \<subseteq> {EvLogKubeContext, EvReadFile path}"
    by (simp add: gnr runDismiss_def split: option.split sum.split)
  show ?thesis
    using run by (simp add: gnr)
qed

theorem deploy_report_empty_namespace_rejected_witness:
  \<open>UseDeployReport cmd_use_deploy_report \<and> Namespace cmd_use_deploy_report = '''' \<and>
   Release cmd_use_deploy_report = '''' \<and>
   GetDeployReportPath world_empty_namespace_report = Inr ''.werf-deploy-report.json'' \<and>
   os_ReadFile world_empty_namespace_report ''.werf-deploy-report.json'' =
     Inr deploy_report_empty_namespace \<and>
   json_Unmarshal world_empty_namespace_report deploy_report_empty_namespace =
     Inr \<lparr>DeployReport_Namespace = '''', DeployReport_Release = ''''\<rparr> \<and>
   getNamespaceAndRelease cmd_use_deploy_report world_empty_namespace_report False =
     ([EvReadFile ''.werf-deploy-report.json''],
      Inl (Errorf ''unable to get namespace from deploy report file %q''
             [''.werf-deploy-report.json''])) \<and>
   runDismiss cmd_use_deploy_report world_empty_namespace_report =
     ([EvLogKubeContext, EvReadFile ''.werf-deploy-report.json''],
      Some (Errorf ''unable to get namespace from deploy report file %q''
              [''.werf-deploy-report.json'']))\<close>
proof -
  have run: \<open>runDismiss cmd_use_deploy_report world_empty_namespace_report =
     ([EvLogKubeContext, EvReadFile ''.werf-deploy-report.json''],
      Some (Errorf ''unable to get namespace from deploy report file %q''
              [''.werf-deploy-report.json'']))\<close>
    by (simp add: run_defs example_defs)
  from deploy_report_empty_namespace_rejected [of cmd_use_deploy_report
      world_empty_namespace_report "''.werf-deploy-report.json''"
      deploy_report_empty_namespace
      "\<lparr>DeployReport_Namespace = '''', DeployReport_Release = ''''\<rparr>" False] run
  show ?thesis by (simp add: example_defs)
qed

subsection \<open>Sources that check the pair themselves\<close>

text \<open>
  A pair that getNamespaceAndRelease returns from the deploy report (checks of lines 279-285)
  or from the explicit flags (checks of lines 308-314) has no empty component. For the
  project configuration the function returns what \<open>deploy_params.GetKubernetesNamespace\<close> and
  \<open>deploy_params.GetHelmRelease\<close> return (lines 298-306) and checks nothing itself; this
  lemma says nothing about that source.
\<close>

lemma resolved_identity_nonempty_without_project:
  assumes "getNamespaceAndRelease c w gitFound = (tr, Inr (namespace, release))"
    and "UseDeployReport c \<or> \<not> gitFound"
  shows "namespace \<noteq> '''' \<and> release \<noteq> ''''"
  using assms
  by (auto simp: getNamespaceAndRelease_def Let_def split: if_splits sum.splits)

end
